theory Spec2Isabelle
  imports Main "HOL-Library.Multiset"
begin

section \<open>Python text\<close>

text \<open>
  A Python \<open>str\<close> is modelled as a \<open>string\<close>; each \<open>char\<close> stands for one
  code point below 256, so \<open>length\<close> is Python's \<open>len\<close>. \<open>isspace\<close> and
  \<open>lower\<close> follow Python's \<open>str.isspace\<close> and \<open>str.lower\<close> on that range.
\<close>

definition isspace :: "char \<Rightarrow> bool" where
  "isspace c =
     (let n = (of_char c :: nat)
      in (9 \<le> n \<and> n \<le> 13) \<or> (28 \<le> n \<and> n \<le> 32) \<or> n = 133 \<or> n = 160)"

definition lstrip :: "string \<Rightarrow> string" where
  "lstrip s = dropWhile isspace s"

definition rstrip :: "string \<Rightarrow> string" where
  "rstrip s = rev (dropWhile isspace (rev s))"

definition strip :: "string \<Rightarrow> string" where
  "strip s = rstrip (lstrip s)"

definition lower_char :: "char \<Rightarrow> char" where
  "lower_char c =
     (let n = (of_char c :: nat)
      in if (65 \<le> n \<and> n \<le> 90) \<or> (192 \<le> n \<and> n \<le> 222 \<and> n \<noteq> 215)
         then char_of (n + 32) else c)"

definition lower :: "string \<Rightarrow> string" where
  "lower s = map lower_char s"

fun startswith :: "string \<Rightarrow> string \<Rightarrow> bool" where
  "startswith s [] = True"
| "startswith [] (p # ps) = False"
| "startswith (c # cs) (p # ps) = (c = p \<and> startswith cs ps)"

text \<open>
  A string literal of the theory cannot hold a backslash or a double quote; they are
  written \<open>BS\<close> and \<open>DQ\<close>.
\<close>

abbreviation BS :: char where
  "BS \<equiv> CHR 0x5C"

abbreviation DQ :: char where
  "DQ \<equiv> CHR 0x22"

text \<open>\<open>contains sub s\<close> is Python's \<open>sub in s\<close>.\<close>

fun contains :: "string \<Rightarrow> string \<Rightarrow> bool" where
  "contains sub [] = (sub = [])"
| "contains sub (c # cs) = (startswith (c # cs) sub \<or> contains sub cs)"

text \<open>\<open>count_char s c\<close> is \<open>s.count(c)\<close> for a one-character \<open>c\<close>.\<close>

definition count_char :: "string \<Rightarrow> char \<Rightarrow> nat" where
  "count_char s c = length (filter (\<lambda>x. x = c) s)"

section \<open>Data model (schemas.py)\<close>

text \<open>
  \<open>Question\<close> of schemas.py. \<open>variables\<close> is a \<open>Dict[str, Any]\<close>: an association
  list from names to the values' text; only its size and its keys are read here.
\<close>

record question =
  instance_id :: int
  pattern_id :: int
  topic :: string
  question_text :: string
  correct_answer :: string
  tikz_code :: string
  difficulty :: string
  solvability_check :: string
  variables :: "(string \<times> string) list"

section \<open>Solvability heuristic (validator.py)\<close>

text \<open>
  \<open>SolvabilityChecker.check\<close>: the branches that only log a warning return nothing
  and are left out; every \<open>return\<close> of the source is a branch here, in its order.
\<close>

definition check :: "question \<Rightarrow> string \<times> string option" where
  "check q =
     (let answer = strip (correct_answer q) in
      if answer = [] \<or> lower answer = ''unknown'' \<or> lower answer = ''n/a''
      then (''invalid'', Some ''Answer is empty or trivial'')
      else
        let qtext = strip (question_text q) in
        if qtext = [] then (''invalid'', Some ''Question text is empty'')
        else if length (variables q) = 0 then (''invalid'', Some ''No variables defined'')
        else if length answer < 2 then (''invalid'', Some ''Answer too short'')
        else (''valid'', None))"

text \<open>
  The answer-only condition of the specification: the answer is empty, a placeholder
  (compared case-insensitively) or shorter than two characters.
\<close>

definition trivial_answer :: "string \<Rightarrow> bool" where
  "trivial_answer a =
     (strip a = [] \<or> lower (strip a) = ''unknown'' \<or> lower (strip a) = ''n/a''
      \<or> length (strip a) < 2)"

definition q_no_text :: question where
  "q_no_text =
     \<lparr>instance_id = 0, pattern_id = 0, topic = ''Algebra'', question_text = [],
      correct_answer = ''42'', tikz_code = BS # ''draw (0,0) -- (1,1);'',
      difficulty = ''easy'', solvability_check = ''pending'',
      variables = [(''x'', ''1'')]\<rparr>"

definition q_good :: question where
  "q_good = q_no_text\<lparr>question_text := ''Find x.''\<rparr>"


section \<open>More Python text operations\<close>

abbreviation NL :: char where
  "NL \<equiv> CHR 0x0A"

text \<open>\<open>str(n)\<close> for a natural number, in decimal.\<close>

function str_nat :: "nat \<Rightarrow> string" where
  "str_nat n =
     (if n < 10 then [char_of (48 + n)]
      else str_nat (n div 10) @ [char_of (48 + n mod 10)])"
  by pat_completeness auto
termination
  by (relation "measure id") auto

declare str_nat.simps [simp del]

text \<open>The format \<open>{x:02d}\<close>: two digits at least, a minus sign counting as one.\<close>

definition fmt_02d :: "int \<Rightarrow> string" where
  "fmt_02d x =
     (if x < 0 then ''-'' @ str_nat (nat (- x))
      else if x < 10 then ''0'' @ str_nat (nat x)
      else str_nat (nat x))"

text \<open>
  \<open>replace s old new\<close> is \<open>s.replace(old, new)\<close>: the occurrences of \<open>old\<close> are
  found from the left and do not overlap; \<open>skip\<close> counts the characters of a match
  still to be passed over.
\<close>

fun replace_aux :: "string \<Rightarrow> string \<Rightarrow> nat \<Rightarrow> string \<Rightarrow> string" where
  "replace_aux old new skip [] = []"
| "replace_aux old new skip (c # cs) =
     (if 0 < skip then replace_aux old new (skip - 1) cs
      else if startswith (c # cs) old then new @ replace_aux old new (length old - 1) cs
      else c # replace_aux old new 0 cs)"

definition replace :: "string \<Rightarrow> string \<Rightarrow> string \<Rightarrow> string" where
  "replace s old new =
     (if old = [] then new @ concat (map (\<lambda>c. c # new) s)
      else replace_aux old new 0 s)"

text \<open>\<open>split_char d s\<close> is \<open>s.split(d)\<close> for a one-character separator.\<close>

fun split_char :: "char \<Rightarrow> string \<Rightarrow> string list" where
  "split_char d [] = [[]]"
| "split_char d (c # cs) =
     (if c = d then [] # split_char d cs
      else (case split_char d cs of
              [] \<Rightarrow> [[c]]
            | l # ls \<Rightarrow> (c # l) # ls))"

text \<open>\<open>join sep xs\<close> is \<open>sep.join(xs)\<close>.\<close>

fun join :: "string \<Rightarrow> string list \<Rightarrow> string" where
  "join sep [] = []"
| "join sep [x] = x"
| "join sep (x # y # ys) = x @ sep @ join sep (y # ys)"

section \<open>Diagram validation (robust\_tikz\_renderer.py)\<close>

text \<open>\<open>RobustTikZValidator.validate\<close>, the check made before a diagram is rendered.\<close>

definition forbidden_patterns :: "string list" where
  "forbidden_patterns =
     [BS # ''input'', BS # ''include'', BS # ''write'', BS # ''read'', BS # ''openout'',
      BS # ''closeout'', BS # ''shell'', BS # ''immediate'', BS # ''def'', BS # ''xdef'',
      BS # ''edef'', BS # ''let'', BS # ''newcommand'', BS # ''renewcommand'',
      BS # ''usepackage'', BS # ''documentclass'', BS # ''begin{document}'',
      BS # ''end{document}'']"

definition drawing_keywords :: "string list" where
  "drawing_keywords = [BS # ''draw'', BS # ''node'', BS # ''coordinate'', BS # ''path'']"

definition validate :: "string \<Rightarrow> bool \<times> string option" where
  "validate code =
     (if code = [] \<or> length (strip code) < 5
      then (False, Some ''TikZ code is empty or too short'')
      else if count_char code (CHR ''{'') \<noteq> count_char code (CHR ''}'')
      then (False, Some ''Mismatched braces in TikZ code'')
      else if count_char code (CHR ''['') \<noteq> count_char code (CHR '']'')
      then (False, Some ''Mismatched brackets in TikZ code'')
      else (case find (\<lambda>p. contains p (lower code)) forbidden_patterns of
              Some p \<Rightarrow> (False, Some (''Forbidden pattern detected: '' @ p))
            | None \<Rightarrow>
                if \<not> list_ex (\<lambda>kw. contains kw (lower code)) drawing_keywords
                then (False, Some ''No TikZ drawing commands found'')
                else (True, None)))"

text \<open>\<open>RobustTikZRenderer._validate_tikz_code\<close>, the renderer's own, shorter check.\<close>

definition renderer_forbidden_patterns :: "string list" where
  "renderer_forbidden_patterns =
     [BS # ''input'', BS # ''include'', BS # ''write'', BS # ''read'', BS # ''openout'',
      BS # ''closeout'', BS # ''shell'', BS # ''immediate'', BS # ''def'', BS # ''xdef'',
      BS # ''edef'', BS # ''let'', BS # ''newcommand'', BS # ''renewcommand'']"

definition validate_tikz_code :: "string \<Rightarrow> bool \<times> string option" where
  "validate_tikz_code code =
     (if code = [] \<or> length (strip code) < 5
      then (False, Some ''TikZ code is empty or too short'')
      else if count_char code (CHR ''{'') \<noteq> count_char code (CHR ''}'')
      then (False, Some ''Mismatched braces in TikZ code'')
      else (case find (\<lambda>p. contains p (lower code)) renderer_forbidden_patterns of
              Some p \<Rightarrow> (False, Some (''Forbidden pattern detected: '' @ p))
            | None \<Rightarrow> (True, None)))"


section \<open>The rendering pipeline (robust\_tikz\_renderer.py)\<close>

text \<open>
  The renderer object. Times are in milliseconds: \<open>time.sleep(0.2 * (attempt + 1))\<close>
  is a sleep of \<open>200 * (attempt + 1)\<close>.
\<close>

record renderer =
  temp_dir :: string
  dpi :: int
  keep_intermediate :: bool
  max_retries :: int

text \<open>
  What the file system, the external compiler, the rasteriser and the image library
  answer is not decided by the program: each call's outcome is read from a
  \<open>world\<close>, one outcome per path through the source's \<open>try\<close> block, indexed by
  the attempt number where the call sits in a retry loop.
\<close>

datatype write_outcome =
    WriteOk
  | WriteNotCreated
  | WriteRaised string

datatype pdf_check =
    PdfMissing
  | PdfEmpty "string option"
  | PdfOk
  | PdfCheckRaised string

datatype tectonic_outcome =
    CleanupRaised string
  | RunTimeout
  | RunRaised string
  | Exited int string pdf_check

datatype convert_outcome =
    MkdirRaised string
  | OpenFailed string
  | PageFailed string
  | RenderFailed string
  | ZeroDimensions
  | NotSaved
  | SavedEmpty
  | SaveRaised string
  | Converted

datatype image_probe =
    OpenRaised string
  | Opened nat nat string

datatype png_outcome =
    PngStatRaised string
  | PngMissing
  | PngFile nat image_probe

text \<open>
  \<^item> \<open>clean_tikz\<close>: \<open>_clean_tikz_code\<close>, a chain of regular-expression rewrites of the
    diagram source; its result is only written to the scratch file and validated, so it
    is a parameter (\<open>Inl\<close> when it raises);
  \<^item> \<open>timestamp k\<close>: \<open>int(time.time() * 1000)\<close> read in attempt \<open>k\<close> of stage 2;
  \<^item> \<open>write_tex k path source\<close>: writing the scratch file and checking it;
  \<^item> \<open>run_tectonic k\<close>: attempt \<open>k\<close> of stage 3; \<open>CleanupRaised\<close> is an exception
    before \<open>subprocess.run\<close> is reached, \<open>Exited rc stderr chk\<close> its return, with
    what the checks of the PDF find after a zero exit (\<open>PdfEmpty (Some m)\<close>: the
    empty file's \<open>unlink\<close> raised \<open>m\<close>);
  \<^item> \<open>convert_png k\<close>: attempt \<open>k\<close> of stage 4;
  \<^item> \<open>probe_png\<close>: what stage 5 finds: the file's size, then the image's width, height
    and mode;
  \<^item> \<open>fmt_mb\<close>: the text of \<open>file_size / 1024 / 1024\<close> to one decimal (float
    formatting);
  \<^item> \<open>busy_ms\<close>: the time the run spends outside \<open>time.sleep\<close>.
\<close>

record world =
  clean_tikz :: "string \<Rightarrow> string + string"
  timestamp :: "nat \<Rightarrow> nat"
  write_tex :: "nat \<Rightarrow> string \<Rightarrow> string \<Rightarrow> write_outcome"
  run_tectonic :: "nat \<Rightarrow> tectonic_outcome"
  convert_png :: "nat \<Rightarrow> convert_outcome"
  probe_png :: png_outcome
  fmt_mb :: "nat \<Rightarrow> string"
  busy_ms :: nat

text \<open>
  The effects a stage has beside its result: the milliseconds slept and the number of
  \<open>subprocess.run\<close> calls of the external compiler.
\<close>

type_synonym fx = "nat \<times> nat"

definition fx_add :: "fx \<Rightarrow> fx \<Rightarrow> fx" where
  "fx_add a b = (fst a + fst b, snd a + snd b)"

text \<open>
  The three retry loops have one shape, \<open>for attempt in range(self.max_retries)\<close>: an
  attempt either returns the stage's result or adds its errors and goes on.
  \<open>attempts step r k\<close> runs attempts \<open>k, k + 1, \<dots>\<close> while \<open>r\<close> remain; an attempt is
  told whether it is the last (\<open>attempt < self.max_retries - 1\<close> fails), because the
  source does not sleep after the last.
\<close>

fun attempts ::
  "(nat \<Rightarrow> bool \<Rightarrow> 'a option \<times> string list \<times> fx) \<Rightarrow> nat \<Rightarrow> nat \<Rightarrow>
     'a option \<times> string list \<times> fx" where
  "attempts step 0 k = (None, [], (0, 0))"
| "attempts step (Suc r) k =
     (case step k (r = 0) of
        (Some x, es, f) \<Rightarrow> (Some x, es, f)
      | (None, es, f) \<Rightarrow>
          (case attempts step r (Suc k) of
             (res, es', f') \<Rightarrow> (res, es @ es', fx_add f f')))"

definition attempt_no :: "nat \<Rightarrow> string" where
  "attempt_no k = ''(attempt '' @ str_nat (k + 1) @ '')''"

definition backoff :: "bool \<Rightarrow> nat \<Rightarrow> nat" where
  "backoff final ms = (if final then 0 else ms)"

subsection \<open>Stage 1: cleaning\<close>

definition generate_clean_tikz_code :: "world \<Rightarrow> string \<Rightarrow> string \<times> string list" where
  "generate_clean_tikz_code W code =
     (if code = [] \<or> length (strip code) < 5
      then (code, [''TikZ code cleaning failed: TikZ code is empty or too short''])
      else (case clean_tikz W code of
              Inl m \<Rightarrow> (code, [''TikZ code cleaning failed: '' @ m])
            | Inr cleaned \<Rightarrow>
                (case validate_tikz_code cleaned of
                   (False, Some e) \<Rightarrow> (cleaned, [''TikZ validation warning: '' @ e])
                 | (False, None) \<Rightarrow> (cleaned, [''TikZ validation warning: None''])
                 | (True, _) \<Rightarrow> (cleaned, []))))"

subsection \<open>Stage 2: the scratch file\<close>

definition LATEX_TEMPLATE :: string where
  "LATEX_TEMPLATE =
     [NL] @ BS # ''documentclass[tikz,border=2pt,12pt]{standalone}'' @
     [NL] @ BS # ''usepackage{tikz}'' @
     [NL] @ BS # ''usepackage{amssymb}'' @
     [NL] @ BS # ''usepackage{amsmath}'' @
     [NL] @ BS # ''usepackage{unicode-math}'' @
     [NL] @ BS # ''usepackage{fontspec}'' @
     [NL] @ BS # ''usetikzlibrary{arrows.meta,positioning,shapes.geometric,calc}'' @
     [NL, NL] @ BS # ''begin{document}'' @
     [NL, NL] @ BS # ''begin{tikzpicture}'' @
     [NL] @ ''%TIKZ_CODE%'' @
     [NL] @ BS # ''end{tikzpicture}'' @
     [NL, NL] @ BS # ''end{document}'' @ [NL]"

definition tex_path :: "renderer \<Rightarrow> world \<Rightarrow> nat \<Rightarrow> string" where
  "tex_path R W k =
     temp_dir R @ ''/'' @ ''tikz_render_'' @ str_nat (timestamp W k) @ ''_'' @ str_nat k @ ''.tex''"

definition write_step ::
  "renderer \<Rightarrow> world \<Rightarrow> string \<Rightarrow> nat \<Rightarrow> bool \<Rightarrow> string option \<times> string list \<times> fx" where
  "write_step R W code k final =
     (let latex_source = replace LATEX_TEMPLATE ''%TIKZ_CODE%'' code;
          path = tex_path R W k
      in case write_tex W k path latex_source of
           WriteOk \<Rightarrow> (Some path, [], (0, 0))
         | WriteNotCreated \<Rightarrow>
             (None, [''TEX file creation '' @ attempt_no k @ '': TEX file creation failed''],
              (backoff final (100 * (k + 1)), 0))
         | WriteRaised m \<Rightarrow>
             (None, [''TEX file creation '' @ attempt_no k @ '': '' @ m],
              (backoff final (100 * (k + 1)), 0)))"

definition write_standalone_tex_file ::
  "renderer \<Rightarrow> world \<Rightarrow> string \<Rightarrow> string option \<times> string list \<times> fx" where
  "write_standalone_tex_file R W code =
     attempts (write_step R W code) (nat (max_retries R)) 0"

subsection \<open>Stage 3: the external compiler\<close>

text \<open>\<open>tex_file.with_suffix('.pdf')\<close>, for a path that ends in \<open>.tex\<close>.\<close>

definition with_suffix_pdf :: "string \<Rightarrow> string" where
  "with_suffix_pdf path = take (length path - 4) path @ ''.pdf''"

definition specific_error :: "string \<Rightarrow> string list" where
  "specific_error stderr =
     (if contains ''Error:'' stderr
      then (case filter (contains ''Error:'') (split_char NL stderr) of
              [] \<Rightarrow> []
            | l # _ \<Rightarrow> [''Specific error: '' @ strip l])
      else [])"

definition exec_failed :: "nat \<Rightarrow> string \<Rightarrow> string" where
  "exec_failed k m = ''Tectonic execution failed '' @ attempt_no k @ '': '' @ m"

definition compile_step ::
  "world \<Rightarrow> string \<Rightarrow> nat \<Rightarrow> bool \<Rightarrow> string option \<times> string list \<times> fx" where
  "compile_step W pdf_file k final =
     (case run_tectonic W k of
        CleanupRaised m \<Rightarrow> (None, [exec_failed k m], (backoff final (100 * (k + 1)), 0))
      | RunTimeout \<Rightarrow>
          (None, [''Tectonic timeout '' @ attempt_no k], (backoff final (1000 * (k + 1)), 1))
      | RunRaised m \<Rightarrow> (None, [exec_failed k m], (backoff final (100 * (k + 1)), 1))
      | Exited rc stderr chk \<Rightarrow>
          if rc \<noteq> 0
          then (None,
                (''Tectonic failed '' @ attempt_no k @ '': '' @ stderr) # specific_error stderr,
                (backoff final (200 * (k + 1)), 1))
          else (case chk of
                  PdfMissing \<Rightarrow>
                    (None, [''Tectonic completed but PDF not created '' @ attempt_no k], (0, 1))
                | PdfEmpty None \<Rightarrow>
                    (None, [''PDF created but empty '' @ attempt_no k], (0, 1))
                | PdfEmpty (Some m) \<Rightarrow>
                    (None, [''PDF created but empty '' @ attempt_no k, exec_failed k m],
                     (backoff final (100 * (k + 1)), 1))
                | PdfCheckRaised m \<Rightarrow>
                    (None, [exec_failed k m], (backoff final (100 * (k + 1)), 1))
                | PdfOk \<Rightarrow> (Some pdf_file, [], (0, 1))))"

definition compile_with_tectonic ::
  "renderer \<Rightarrow> world \<Rightarrow> string \<Rightarrow> string option \<times> string list \<times> fx" where
  "compile_with_tectonic R W tex_file =
     attempts (compile_step W (with_suffix_pdf tex_file)) (nat (max_retries R)) 0"

subsection \<open>Stage 4: rasterisation\<close>

definition convert_step :: "world \<Rightarrow> nat \<Rightarrow> bool \<Rightarrow> unit option \<times> string list \<times> fx" where
  "convert_step W k final =
     (let failed = (\<lambda>what m.
            (None, [what @ '' '' @ attempt_no k @ '': '' @ m], (backoff final (100 * (k + 1)), 0)))
      in case convert_png W k of
           MkdirRaised m \<Rightarrow> failed ''PDF to PNG conversion failed'' m
         | OpenFailed m \<Rightarrow> failed ''Failed to open PDF'' m
         | PageFailed m \<Rightarrow> failed ''Failed to get PDF page'' m
         | RenderFailed m \<Rightarrow> failed ''Failed to render PDF page'' m
         | ZeroDimensions \<Rightarrow> failed ''Failed to save PNG'' ''Rendered image has zero dimensions''
         | NotSaved \<Rightarrow> failed ''Failed to save PNG'' ''PNG file was not saved''
         | SavedEmpty \<Rightarrow> failed ''Failed to save PNG'' ''PNG file is empty''
         | SaveRaised m \<Rightarrow> failed ''Failed to save PNG'' m
         | Converted \<Rightarrow> (Some (), [], (0, 0)))"

definition convert_to_png_with_pypdfium2 ::
  "renderer \<Rightarrow> world \<Rightarrow> bool \<times> string list \<times> fx" where
  "convert_to_png_with_pypdfium2 R W =
     (case attempts (convert_step W) (nat (max_retries R)) 0 of
        (res, es, f) \<Rightarrow> (res \<noteq> None, es, f))"

subsection \<open>Stage 5: the final image\<close>

definition validate_final_png :: "world \<Rightarrow> bool \<times> string list" where
  "validate_final_png W =
     (case probe_png W of
        PngStatRaised m \<Rightarrow> (False, [''PNG validation failed: '' @ m])
      | PngMissing \<Rightarrow> (False, [''PNG file does not exist''])
      | PngFile file_size img \<Rightarrow>
          if file_size = 0 then (False, [''PNG file is empty''])
          else
            let errors = (if file_size > 10 * 1024 * 1024
                          then [''PNG file too large: '' @ fmt_mb W file_size @ ''MB'']
                          else [])
            in (case img of
                  OpenRaised m \<Rightarrow> (False, errors @ [''PIL validation failed: '' @ m])
                | Opened w h mode \<Rightarrow>
                    if w = 0 \<or> h = 0
                    then (False, errors @ [''Invalid image dimensions: ('' @ str_nat w @ '', ''
                                           @ str_nat h @ '')''])
                    else if mode \<notin> set [''RGB'', ''RGBA'', ''L'']
                    then (True, errors @ [''Unexpected image mode: '' @ mode])
                    else (True, errors)))"


subsection \<open>The pipeline of the five stages\<close>

text \<open>
  The exceptions of the program, by class, with the text \<open>str(e)\<close> gives.
\<close>

datatype exn =
    ValueError string
  | RuntimeError string
  | OtherError string

fun str_exn :: "exn \<Rightarrow> string" where
  "str_exn (ValueError m) = m"
| "str_exn (RuntimeError m) = m"
| "str_exn (OtherError m) = m"

text \<open>The dictionary \<open>render_metadata\<close> of \<open>render\<close>, one field per key.\<close>

record render_metadata =
  success :: bool
  output_png :: string
  md_tikz_code :: string
  steps_completed :: "string list"
  errors :: "string list"
  warnings :: "string list"
  execution_time :: nat
  intermediate_files :: "(string \<times> string) list"

text \<open>
  The body of the \<open>try\<close> block of \<open>render\<close>, one definition per stage from the
  last to the first: the exception raised, if any, the dictionary as the body left it,
  and the effects.
\<close>

definition render_stage5 ::
  "world \<Rightarrow> render_metadata \<Rightarrow> fx \<Rightarrow> exn option \<times> render_metadata \<times> fx" where
  "render_stage5 W md f =
     (let r5 = validate_final_png W;
          md5 = md\<lparr>steps_completed := steps_completed md @ [''png_validation''],
                    errors := errors md @ snd r5\<rparr>
      in if \<not> fst r5 then (Some (RuntimeError ''Final PNG validation failed''), md5, f)
         else (None, md5\<lparr>success := True\<rparr>, f))"

definition render_stage4 ::
  "renderer \<Rightarrow> world \<Rightarrow> render_metadata \<Rightarrow> fx \<Rightarrow> exn option \<times> render_metadata \<times> fx" where
  "render_stage4 R W md f =
     (let r4 = convert_to_png_with_pypdfium2 R W;
          md4 = md\<lparr>steps_completed := steps_completed md @ [''png_conversion''],
                    errors := errors md @ fst (snd r4)\<rparr>;
          f4 = fx_add f (snd (snd r4))
      in if \<not> fst r4 then (Some (RuntimeError ''PDF to PNG conversion failed''), md4, f4)
         else render_stage5 W md4 f4)"

definition render_stage3 ::
  "renderer \<Rightarrow> world \<Rightarrow> string \<Rightarrow> render_metadata \<Rightarrow> fx \<Rightarrow>
     exn option \<times> render_metadata \<times> fx" where
  "render_stage3 R W tex md f =
     (let r3 = compile_with_tectonic R W tex;
          pdf_file = fst r3;
          md3 = md\<lparr>steps_completed := steps_completed md @ [''tectonic_compilation''],
                    intermediate_files := intermediate_files md @
                      (case pdf_file of None \<Rightarrow> [] | Some p \<Rightarrow> [(''pdf'', p)]),
                    errors := errors md @ fst (snd r3)\<rparr>;
          f3 = fx_add f (snd (snd r3))
      in if pdf_file = None then (Some (RuntimeError ''Tectonic compilation failed''), md3, f3)
         else render_stage4 R W md3 f3)"

definition render_stage2 ::
  "renderer \<Rightarrow> world \<Rightarrow> string \<Rightarrow> render_metadata \<Rightarrow> exn option \<times> render_metadata \<times> fx" where
  "render_stage2 R W cleaned_tikz md =
     (let r2 = write_standalone_tex_file R W cleaned_tikz;
          tex_file = fst r2;
          md2 = md\<lparr>steps_completed := steps_completed md @ [''tex_file_creation''],
                    intermediate_files := intermediate_files md @
                      [(''tex'', case tex_file of None \<Rightarrow> ''None'' | Some p \<Rightarrow> p)],
                    errors := errors md @ fst (snd r2)\<rparr>
      in case tex_file of
           None \<Rightarrow> (Some (RuntimeError ''Failed to create TEX file''), md2, snd (snd r2))
         | Some tex \<Rightarrow> render_stage3 R W tex md2 (snd (snd r2)))"

definition render_body ::
  "renderer \<Rightarrow> world \<Rightarrow> string \<Rightarrow> render_metadata \<Rightarrow> exn option \<times> render_metadata \<times> fx" where
  "render_body R W code md0 =
     (let r1 = generate_clean_tikz_code W code;
          md1 = md0\<lparr>steps_completed := steps_completed md0 @ [''tikz_code_generation''],
                     warnings := warnings md0 @ snd r1\<rparr>
      in render_stage2 R W (fst r1) md1)"

text \<open>
  \<open>render\<close>: the \<open>except Exception\<close> clause appends the exception's text to the
  errors; the \<open>finally\<close> clause deletes the scratch files (each deletion in a
  \<open>try\<close> of its own that only logs), and stores the elapsed time. The second
  component is the number of runs of the external compiler.
\<close>

definition render :: "renderer \<Rightarrow> world \<Rightarrow> string \<Rightarrow> string \<Rightarrow> render_metadata \<times> nat" where
  "render R W code out =
     (let md0 = \<lparr>success = False, output_png = out, md_tikz_code = code,
                 steps_completed = [], errors = [], warnings = [], execution_time = 0,
                 intermediate_files = []\<rparr>
      in case render_body R W code md0 of (raised, md, f) \<Rightarrow>
           let md' = (case raised of
                        None \<Rightarrow> md
                      | Some e \<Rightarrow> md\<lparr>errors := errors md @ [''Pipeline failed: '' @ str_exn e]\<rparr>)
           in (md'\<lparr>execution_time := fst f + busy_ms W\<rparr>, snd f))"

section \<open>The orchestrator (pipeline.py)\<close>

text \<open>\<open>RenderedDiagram\<close> of schemas.py; \<open>render_time\<close> in milliseconds.\<close>

record rendered_diagram =
  rd_tikz_code :: string
  pdf_path :: string
  png_path :: string
  render_time :: nat
  rd_success :: bool
  error_message :: "string option"

text \<open>The fields of the \<open>Pipeline\<close> object that the rendering and the run read.\<close>

record pipeline =
  output_dir :: string
  diagrams_dir :: string
  tikz_renderer :: renderer
  validate_solvability :: bool
  parallel_rendering :: bool

text \<open>
  \<open>render_result.get(key, default)\<close> for a time: the dictionary of \<open>render\<close> holds
  one, under \<open>execution_time\<close>; under a key the dictionary does not have, \<open>get\<close>
  gives the default.
\<close>

definition metadata_keys :: "string list" where
  "metadata_keys =
     [''success'', ''output_png'', ''tikz_code'', ''steps_completed'', ''errors'',
      ''warnings'', ''execution_time'', ''intermediate_files'']"

definition get_time :: "render_metadata \<Rightarrow> string \<Rightarrow> nat \<Rightarrow> nat" where
  "get_time md key dflt = (if key = ''execution_time'' then execution_time md else dflt)"

definition png_name :: "pipeline \<Rightarrow> question \<Rightarrow> int \<Rightarrow> string" where
  "png_name P q pattern_idx =
     diagrams_dir P @ ''/'' @ ''pattern_'' @ fmt_02d pattern_idx @ ''_question_''
       @ fmt_02d (instance_id q) @ ''.png''"

text \<open>
  \<open>_render_single_diagram\<close>: the diagram record and the number of runs of the external
  compiler made for it.
\<close>

definition render_single_diagram ::
  "pipeline \<Rightarrow> world \<Rightarrow> question \<Rightarrow> int \<Rightarrow> rendered_diagram \<times> nat" where
  "render_single_diagram P W q pattern_idx =
     (let out = png_name P q pattern_idx
      in case validate (tikz_code q) of
           (False, error) \<Rightarrow>
             (\<lparr>rd_tikz_code = tikz_code q, pdf_path = [], png_path = [], render_time = 0,
               rd_success = False, error_message = error\<rparr>, 0)
         | (True, _) \<Rightarrow>
             (case render (tikz_renderer P) W (tikz_code q) out of (render_result, runs) \<Rightarrow>
                (\<lparr>rd_tikz_code = tikz_code q,
                  pdf_path = replace out ''.png'' ''.pdf'',
                  png_path = out,
                  render_time = get_time render_result ''render_time'' 0,
                  rd_success = success render_result,
                  error_message = (if success render_result then None
                                   else Some (join ''; '' (errors render_result)))\<rparr>, runs)))"

text \<open>
  \<open>_render_diagrams_sequential\<close> and \<open>_render_diagrams_parallel\<close>. \<open>worlds i\<close>
  answers the calls made for the question at position \<open>i\<close>. In the parallel
  version, \<open>order\<close> lists the positions in the order in which \<open>as_completed\<close> yields
  their futures; the list \<open>rendered\<close> starts as \<open>[None] * len(questions)\<close>.
\<close>

definition render_diagrams_sequential ::
  "pipeline \<Rightarrow> (nat \<Rightarrow> world) \<Rightarrow> question list \<Rightarrow> int \<Rightarrow> rendered_diagram option list" where
  "render_diagrams_sequential P worlds qs pattern_idx =
     map (\<lambda>i. Some (fst (render_single_diagram P (worlds i) (qs ! i) pattern_idx)))
       [0..<length qs]"

definition render_diagrams_parallel ::
  "pipeline \<Rightarrow> (nat \<Rightarrow> world) \<Rightarrow> question list \<Rightarrow> int \<Rightarrow> nat list \<Rightarrow>
     rendered_diagram option list" where
  "render_diagrams_parallel P worlds qs pattern_idx order =
     (let futures = map (\<lambda>i. fst (render_single_diagram P (worlds i) (qs ! i) pattern_idx))
                      [0..<length qs]
      in fold (\<lambda>idx rendered. rendered[idx := Some (futures ! idx)]) order
           (replicate (length qs) None))"

section \<open>Example inputs\<close>

definition R3 :: renderer where
  "R3 = \<lparr>temp_dir = ''temp'', dpi = 300, keep_intermediate = False, max_retries = 3\<rparr>"

definition P3 :: pipeline where
  "P3 = \<lparr>output_dir = ''output'', diagrams_dir = ''output/diagrams'', tikz_renderer = R3,
          validate_solvability = True, parallel_rendering = True\<rparr>"

text \<open>A world in which every external call succeeds at once.\<close>

definition W_ok :: world where
  "W_ok = \<lparr>clean_tikz = Inr, timestamp = (\<lambda>k. 17), write_tex = (\<lambda>k path source. WriteOk),
            run_tectonic = (\<lambda>k. Exited 0 [] PdfOk), convert_png = (\<lambda>k. Converted),
            probe_png = PngFile 2048 (Opened 640 480 ''RGBA''), fmt_mb = (\<lambda>n. ''0.0''),
            busy_ms = 1500\<rparr>"

text \<open>The external compiler exits with code zero and leaves an empty PDF, every time.\<close>

definition W_empty_pdf :: world where
  "W_empty_pdf = W_ok\<lparr>run_tectonic := (\<lambda>k. Exited 0 [] (PdfEmpty None))\<rparr>"

text \<open>The external compiler fails twice, then succeeds.\<close>

definition W_fail_twice :: world where
  "W_fail_twice =
     W_ok\<lparr>run_tectonic := (\<lambda>k. if k < 2 then Exited 1 ''Error: boom'' PdfMissing
                                else Exited 0 [] PdfOk)\<rparr>"

definition q_input :: question where
  "q_input = q_good\<lparr>tikz_code := BS # ''draw (0,0) -- (1,1); '' @ BS # ''input{secret}''\<rparr>"

definition q_unbalanced :: question where
  "q_unbalanced = q_good\<lparr>tikz_code := BS # ''draw (0,0) -- (1,1) node {A;''\<rparr>"


section \<open>A full run (pipeline.py, pdf\_builder.py)\<close>

text \<open>
  \<open>QuestionSet\<close>, \<open>PDFPage\<close>, \<open>PatternPDF\<close> and \<open>OutputManifest\<close> of schemas.py
  (the metadata dictionaries, which the run leaves at their defaults, are left out).
\<close>

record question_set =
  qs_pattern_id :: int
  qs_pattern_name :: string
  questions :: "question list"
  qs_topic :: string

record pdf_page =
  page_number :: int
  question_id :: int
  pg_question_text :: string
  pg_tikz_code :: string
  answer :: string
  image_path :: string

record pattern_pdf =
  pp_pattern_id :: int
  pp_pattern_name :: string
  pp_pdf_path :: string
  pages :: "pdf_page list"
  generation_time :: nat

record output_manifest =
  om_topic :: string
  total_patterns :: int
  total_questions :: int
  pdfs :: "pattern_pdf list"
  om_diagrams_dir :: string
  om_output_dir :: string
  generation_timestamp :: string

definition QUESTIONS_PER_PATTERN :: int where
  "QUESTIONS_PER_PATTERN = 10"

text \<open>
  The collaborators of a run, which the orchestrator calls and does not look into:
  \<^item> \<open>generate_pattern_collection topic grade n\<close>: \<open>PatternGenerator.generate\<close>, the
    patterns it returns (of a type \<open>'p\<close> the run only passes on) or the exception it
    raises;
  \<^item> \<open>generate_question_set pattern topic\<close>: \<open>QuestionGenerator.generate\<close>;
  \<^item> \<open>save_json path\<close>: \<open>_save_json\<close>, the exception it raises, if any;
  \<^item> \<open>doc_build path\<close>: the calls into the PDF library made by \<open>build_pdf\<close>;
  \<^item> \<open>world_of i j\<close>: what the outside world answers while the diagram of question
    \<open>j\<close> of pattern \<open>i\<close> is rendered;
  \<^item> \<open>completion_order i\<close>: the order in which the worker pool completes the compiles of
    pattern \<open>i\<close>;
  \<^item> \<open>utcnow\<close>: the text of \<open>datetime.utcnow().isoformat()\<close>.
\<close>

record 'p collaborators =
  generate_pattern_collection :: "string \<Rightarrow> string \<Rightarrow> int \<Rightarrow> exn + 'p list"
  generate_question_set :: "'p \<Rightarrow> string \<Rightarrow> exn + question_set"
  save_json :: "string \<Rightarrow> exn option"
  doc_build :: "string \<Rightarrow> exn option"
  world_of :: "nat \<Rightarrow> nat \<Rightarrow> world"
  completion_order :: "nat \<Rightarrow> nat list"
  utcnow :: string

text \<open>A loop that stops at the first exception raised in its body.\<close>

fun map_result :: "('a \<Rightarrow> exn + 'b) \<Rightarrow> 'a list \<Rightarrow> exn + 'b list" where
  "map_result f [] = Inr []"
| "map_result f (x # xs) =
     (case f x of
        Inl e \<Rightarrow> Inl e
      | Inr y \<Rightarrow> (case map_result f xs of Inl e \<Rightarrow> Inl e | Inr ys \<Rightarrow> Inr (y # ys)))"

text \<open>
  \<open>_generate_questions\<close>: the validation of the set only logs; with
  \<open>validate_solvability\<close> each question's status is overwritten by the heuristic.
\<close>

definition generate_questions ::
  "pipeline \<Rightarrow> 'p collaborators \<Rightarrow> string \<Rightarrow> 'p \<Rightarrow> exn + question_set" where
  "generate_questions P C tpc pattern =
     (case generate_question_set C pattern tpc of
        Inl e \<Rightarrow> Inl e
      | Inr qs \<Rightarrow>
          Inr (if validate_solvability P
               then qs\<lparr>questions :=
                         map (\<lambda>q. q\<lparr>solvability_check := fst (check q)\<rparr>) (questions qs)\<rparr>
               else qs))"

definition render_diagrams ::
  "pipeline \<Rightarrow> 'p collaborators \<Rightarrow> question_set \<Rightarrow> nat \<Rightarrow> rendered_diagram option list" where
  "render_diagrams P C qs pattern_idx =
     (if parallel_rendering P
      then render_diagrams_parallel P (world_of C pattern_idx) (questions qs) (int pattern_idx)
             (completion_order C pattern_idx)
      else render_diagrams_sequential P (world_of C pattern_idx) (questions qs) (int pattern_idx))"

text \<open>
  \<open>PDFBuilder.build_pdf\<close>: one page record per question, in order; the image path is
  the diagram's when the diagram succeeded and empty otherwise. Reading
  \<open>rendered_diagrams[i]\<close> past the end raises.
\<close>

definition page_of :: "nat \<Rightarrow> question \<Rightarrow> rendered_diagram option \<Rightarrow> pdf_page" where
  "page_of i q diagram =
     \<lparr>page_number = int i + 1, question_id = instance_id q,
      pg_question_text = question_text q, pg_tikz_code = tikz_code q,
      answer = correct_answer q,
      image_path = (case diagram of
                      None \<Rightarrow> []
                    | Some d \<Rightarrow> if rd_success d then png_path d else [])\<rparr>"

definition build_pdf ::
  "'p collaborators \<Rightarrow> question_set \<Rightarrow> rendered_diagram option list \<Rightarrow> string \<Rightarrow>
     exn + pattern_pdf" where
  "build_pdf C qs diagrams output_pdf =
     (if length (questions qs) < 1
      then Inl (ValueError (''Expected at least 1 question, got ''
                            @ str_nat (length (questions qs))))
      else if length diagrams < 1
      then Inl (ValueError (''Expected at least 1 diagram, got '' @ str_nat (length diagrams)))
      else if length diagrams < length (questions qs)
      then Inl (OtherError ''list index out of range'')
      else (case doc_build C output_pdf of
              Some e \<Rightarrow> Inl e
            | None \<Rightarrow>
                Inr \<lparr>pp_pattern_id = qs_pattern_id qs, pp_pattern_name = qs_pattern_name qs,
                     pp_pdf_path = output_pdf,
                     pages = map (\<lambda>i. page_of i (questions qs ! i) (diagrams ! i))
                               [0..<length (questions qs)],
                     generation_time = 0\<rparr>))"

definition pdf_name :: "pipeline \<Rightarrow> nat \<Rightarrow> question_set \<Rightarrow> string" where
  "pdf_name P pattern_idx qs =
     output_dir P @ ''/'' @ ''pattern_'' @ fmt_02d (int pattern_idx) @ ''_''
       @ replace (qs_pattern_name qs) '' '' ''_'' @ ''.pdf''"

definition json_name :: "pipeline \<Rightarrow> string \<Rightarrow> string \<Rightarrow> string" where
  "json_name P tpc suffix = output_dir P @ ''/'' @ replace tpc '' '' ''_'' @ suffix"

text \<open>
  Steps 1 to 5 of \<open>Pipeline.run\<close>, given the number of patterns it has settled on.
\<close>

definition build_all ::
  "pipeline \<Rightarrow> 'p collaborators \<Rightarrow> question_set list \<Rightarrow> exn + pattern_pdf list" where
  "build_all P C all_question_sets =
     (let all_rendered_diagrams =
            map (\<lambda>i. render_diagrams P C (all_question_sets ! i) i)
              [0..<length all_question_sets]
      in map_result
           (\<lambda>i. build_pdf C (all_question_sets ! i) (all_rendered_diagrams ! i)
                   (pdf_name P i (all_question_sets ! i)))
           [0..<length all_question_sets])"

definition run_steps ::
  "pipeline \<Rightarrow> 'p collaborators \<Rightarrow> string \<Rightarrow> string \<Rightarrow> int \<Rightarrow> exn + output_manifest" where
  "run_steps P C tpc grade_level num_patterns =
     (case generate_pattern_collection C tpc grade_level num_patterns of
        Inl e \<Rightarrow> Inl e
      | Inr patterns \<Rightarrow>
          (case save_json C (json_name P tpc ''_patterns.json'') of
             Some e \<Rightarrow> Inl e
           | None \<Rightarrow>
               (case map_result (generate_questions P C tpc) patterns of
                  Inl e \<Rightarrow> Inl e
                | Inr all_question_sets \<Rightarrow>
                    (case save_json C (json_name P tpc ''_questions.json'') of
                       Some e \<Rightarrow> Inl e
                     | None \<Rightarrow>
                         (case build_all P C all_question_sets of
                            Inl e \<Rightarrow> Inl e
                          | Inr all_pdfs \<Rightarrow>
                              (case save_json C (json_name P tpc ''_manifest.json'') of
                                 Some e \<Rightarrow> Inl e
                               | None \<Rightarrow>
                                   Inr \<lparr>om_topic = tpc, total_patterns = num_patterns,
                                        total_questions = num_patterns * QUESTIONS_PER_PATTERN,
                                        pdfs = all_pdfs, om_diagrams_dir = diagrams_dir P,
                                        om_output_dir = output_dir P,
                                        generation_timestamp = utcnow C\<rparr>))))))"

text \<open>
  \<open>Pipeline.run\<close>. The argument \<open>num_patterns\<close> may be \<open>None\<close>; whatever it is, the
  source then assigns 10. The first component of the result lists the values of
  \<open>num_patterns\<close> with which the pattern generation step was invoked.
\<close>

definition run ::
  "pipeline \<Rightarrow> 'p collaborators \<Rightarrow> string \<Rightarrow> string \<Rightarrow> int option \<Rightarrow>
     int list \<times> (exn + output_manifest)" where
  "run P C tpc grade_level num_patterns =
     (let num_patterns1 = (case num_patterns of None \<Rightarrow> 10 | Some n \<Rightarrow> n);
          num_patterns2 = (\<lambda>overwritten. (10 :: int)) num_patterns1
      in ([num_patterns2], run_steps P C tpc grade_level num_patterns2))"

text \<open>Two patterns of three questions each; every collaborator succeeds.\<close>

definition three_questions :: "int \<Rightarrow> question list" where
  "three_questions p =
     [q_good\<lparr>pattern_id := p\<rparr>,
      q_input\<lparr>instance_id := 1, pattern_id := p\<rparr>,
      q_unbalanced\<lparr>instance_id := 2, pattern_id := p\<rparr>]"

definition C_two_by_three :: "nat collaborators" where
  "C_two_by_three =
     \<lparr>generate_pattern_collection = (\<lambda>tpc grade n. Inr [0, 1]),
      generate_question_set = (\<lambda>p tpc.
        Inr \<lparr>qs_pattern_id = int p, qs_pattern_name = ''Distance Formula'',
             questions = three_questions (int p), qs_topic = tpc\<rparr>),
      save_json = (\<lambda>path. None),
      doc_build = (\<lambda>path. None),
      world_of = (\<lambda>i j. W_ok),
      completion_order = (\<lambda>i. [2, 0, 1]),
      utcnow = ''2024-01-01T00:00:00''\<rparr>"


section \<open>Solvability heuristic: results\<close>

lemma isspace_simps:
  "isspace c = (of_char c \<in> {9, 10, 11, 12, 13, 28, 29, 30, 31, 32, 133, 160 :: nat})"
  unfolding isspace_def Let_def by (simp; arith)

text \<open>
  C9, as stated, fails: a question whose answer is \<open>42\<close> but whose question text is
  empty is flagged invalid, although its answer is neither empty, a placeholder nor
  short.
\<close>

theorem check_answer_only_counterexample:
  "fst (check q_no_text) = ''invalid'' \<and> \<not> trivial_answer (correct_answer q_no_text)"
  by (simp add: check_def trivial_answer_def q_no_text_def strip_def lstrip_def rstrip_def
      lower_def lower_char_def isspace_simps)

text \<open>
  C9, amended: the heuristic returns invalid exactly when the stripped answer is empty,
  a placeholder (case-insensitively) or shorter than two characters, or the stripped
  question text is empty, or no variables are defined; it returns valid otherwise.
\<close>

theorem check_invalid_iff:
  "(fst (check q) = ''invalid'') =
     (trivial_answer (correct_answer q) \<or> strip (question_text q) = [] \<or> variables q = [])
   \<and> (fst (check q) = ''valid'') =
     (\<not> (trivial_answer (correct_answer q) \<or> strip (question_text q) = [] \<or> variables q = []))"
  by (auto simp: check_def trivial_answer_def Let_def)

theorem check_invalid_iff_witness:
  "fst (check q_good) = ''valid'' \<and> fst (check q_no_text) = ''invalid''"
  using check_invalid_iff [of q_good] check_invalid_iff [of q_no_text]
  by (simp add: trivial_answer_def q_good_def q_no_text_def strip_def lstrip_def rstrip_def
      lower_def lower_char_def isspace_simps)

section \<open>Diagram validation: results\<close>

lemma startswith_map: "startswith s p \<Longrightarrow> startswith (map f s) (map f p)"
  by (induction s p rule: startswith.induct) auto

lemma contains_map: "contains p s \<Longrightarrow> contains (map f p) (map f s)"
proof (induction s)
  case Nil
  then show ?case by simp
next
  case (Cons c cs)
  then show ?case
    using startswith_map [of "c # cs" p f] by auto
qed

lemma lower_forbidden: "p \<in> set forbidden_patterns \<Longrightarrow> lower p = p"
  by (auto simp: forbidden_patterns_def lower_def lower_char_def)

lemma contains_lower_forbidden:
  "p \<in> set forbidden_patterns \<Longrightarrow> contains p code \<Longrightarrow> contains p (lower code)"
  using contains_map [of p code lower_char] lower_forbidden [of p] by (simp add: lower_def)

lemma forbidden_nonempty_msg: "''Forbidden pattern detected: '' @ p \<noteq> []"
  by simp

lemma validate_rejects:
  assumes "count_char code (CHR ''{'') \<noteq> count_char code (CHR ''}'')
         \<or> count_char code (CHR ''['') \<noteq> count_char code (CHR '']'')
         \<or> (\<exists>p \<in> set forbidden_patterns. contains p (lower code))"
  shows "\<exists>m. validate code = (False, Some m) \<and> m \<noteq> []"
proof (cases "\<exists>p \<in> set forbidden_patterns. contains p (lower code)")
  case True
  then obtain p where "find (\<lambda>p. contains p (lower code)) forbidden_patterns = Some p"
    by (cases "find (\<lambda>p. contains p (lower code)) forbidden_patterns")
      (auto simp: find_None_iff)
  then show ?thesis
    unfolding validate_def by simp
next
  case False
  with assms show ?thesis
    unfolding validate_def by auto
qed


text \<open>
  C3: a diagram source whose braces or brackets are unbalanced, or which contains a
  directive of the deny-list (as written or in another letter case), is rejected by
  the validation that precedes rendering: the diagram record is a failure with a
  non-empty error message, and the external compiler is run zero times.
\<close>

theorem invalid_source_never_reaches_compiler:
  assumes "count_char (tikz_code q) (CHR ''{'') \<noteq> count_char (tikz_code q) (CHR ''}'')
         \<or> count_char (tikz_code q) (CHR ''['') \<noteq> count_char (tikz_code q) (CHR '']'')
         \<or> (\<exists>p \<in> set forbidden_patterns.
               contains p (tikz_code q) \<or> contains p (lower (tikz_code q)))"
  shows "\<not> rd_success (fst (render_single_diagram P W q pattern_idx))
       \<and> (\<exists>m. error_message (fst (render_single_diagram P W q pattern_idx)) = Some m \<and> m \<noteq> [])
       \<and> snd (render_single_diagram P W q pattern_idx) = 0"
proof -
  have "count_char (tikz_code q) (CHR ''{'') \<noteq> count_char (tikz_code q) (CHR ''}'')
         \<or> count_char (tikz_code q) (CHR ''['') \<noteq> count_char (tikz_code q) (CHR '']'')
         \<or> (\<exists>p \<in> set forbidden_patterns. contains p (lower (tikz_code q)))"
    using assms contains_lower_forbidden by blast
  then obtain m where "validate (tikz_code q) = (False, Some m)" and "m \<noteq> []"
    using validate_rejects by blast
  then show ?thesis
    by (simp add: render_single_diagram_def)
qed

theorem invalid_source_never_reaches_compiler_witness:
  "\<not> rd_success (fst (render_single_diagram P3 W_ok q_input 0))
   \<and> error_message (fst (render_single_diagram P3 W_ok q_input 0))
       = Some (''Forbidden pattern detected: '' @ BS # ''input'')
   \<and> snd (render_single_diagram P3 W_ok q_input 0) = 0
   \<and> \<not> rd_success (fst (render_single_diagram P3 W_ok q_unbalanced 0))
   \<and> snd (render_single_diagram P3 W_ok q_unbalanced 0) = 0"
proof -
  have a: "contains (BS # ''input'') (tikz_code q_input)"
    by (simp add: q_input_def q_good_def q_no_text_def)
  have b: "count_char (tikz_code q_unbalanced) (CHR ''{'')
             \<noteq> count_char (tikz_code q_unbalanced) (CHR ''}'')"
    by (simp add: q_unbalanced_def q_good_def q_no_text_def count_char_def)
  have c: "BS # ''input'' \<in> set forbidden_patterns"
    by (simp add: forbidden_patterns_def)
  have d: "validate (tikz_code q_input) = (False, Some (''Forbidden pattern detected: '' @ BS # ''input''))"
    by (simp add: validate_def q_input_def q_good_def q_no_text_def count_char_def
        strip_def lstrip_def rstrip_def isspace_simps forbidden_patterns_def lower_def lower_char_def)
  show ?thesis
    using invalid_source_never_reaches_compiler [of q_input P3 W_ok 0]
      invalid_source_never_reaches_compiler [of q_unbalanced P3 W_ok 0] a b c d
    by (auto simp: render_single_diagram_def)
qed


section \<open>Parallel rendering: results\<close>

lemma fold_update_nth:
  assumes "j < length init"
  shows "(fold (\<lambda>idx rendered. rendered[idx := Some (f idx)]) order init) ! j
           = (if j \<in> set order then Some (f j) else init ! j)"
  using assms
proof (induction order arbitrary: init)
  case Nil
  then show ?case by simp
next
  case (Cons i order)
  then show ?case
    by (cases "i = j") (auto simp: nth_list_update)
qed

lemma fold_update_length:
  "length (fold (\<lambda>idx rendered. rendered[idx := Some (f idx)]) order init) = length init"
  by (induction order arbitrary: init) auto

text \<open>
  C5: whatever the order in which the worker pool completes the N compiles (any
  permutation of the positions), the parallel rendering returns N results, and the
  result at position i is the compile result of the question at position i.
\<close>

theorem parallel_results_in_instance_order:
  assumes "mset order = mset [0..<length qs]"
  shows "render_diagrams_parallel P worlds qs pattern_idx order
           = map (\<lambda>i. Some (fst (render_single_diagram P (worlds i) (qs ! i) pattern_idx)))
               [0..<length qs]
       \<and> length (render_diagrams_parallel P worlds qs pattern_idx order) = length qs"
proof -
  let ?futures = "map (\<lambda>i. fst (render_single_diagram P (worlds i) (qs ! i) pattern_idx))
                    [0..<length qs]"
  let ?res = "fold (\<lambda>idx rendered. rendered[idx := Some (?futures ! idx)]) order
                (replicate (length qs) None)"
  have set_order: "set order = {0..<length qs}"
    using mset_eq_setD [OF assms] by simp
  have len: "length ?res = length qs"
    by (simp add: fold_update_length)
  have "?res = map (\<lambda>i. Some (fst (render_single_diagram P (worlds i) (qs ! i) pattern_idx)))
                 [0..<length qs]"
  proof (rule nth_equalityI)
    show "length ?res = length (map (\<lambda>i. Some (fst (render_single_diagram P (worlds i) (qs ! i)
            pattern_idx))) [0..<length qs])"
      using len by simp
  next
    fix j
    assume "j < length ?res"
    then have j: "j < length qs" using len by simp
    then have "?res ! j = Some (?futures ! j)"
      using fold_update_nth [of j "replicate (length qs) None" "\<lambda>idx. ?futures ! idx" order]
        set_order by simp
    with j show "?res ! j = map (\<lambda>i. Some (fst (render_single_diagram P (worlds i) (qs ! i)
            pattern_idx))) [0..<length qs] ! j"
      by simp
  qed
  then show ?thesis
    by (simp add: render_diagrams_parallel_def)
qed

theorem parallel_results_in_instance_order_witness:
  "render_diagrams_parallel P3 (\<lambda>i. if i = 1 then W_fail_twice else W_ok)
       [q_good, q_input, q_unbalanced] 0 [2, 0, 1]
     = [Some (fst (render_single_diagram P3 W_ok q_good 0)),
        Some (fst (render_single_diagram P3 W_fail_twice q_input 0)),
        Some (fst (render_single_diagram P3 W_ok q_unbalanced 0))]"
  using parallel_results_in_instance_order
    [of "[2, 0, 1]" "[q_good, q_input, q_unbalanced]" P3
      "\<lambda>i. if i = 1 then W_fail_twice else W_ok" 0]
  by (simp add: upt_rec)


section \<open>The rendering pipeline: results\<close>

lemma contains_self_prefix: "startswith (p @ b) p"
  by (induction p) auto

lemma contains_append: "contains p (a @ p @ b)"
proof (induction a)
  case Nil
  show ?case
    using contains_self_prefix [of p b] by (cases "p @ b") auto
next
  case (Cons c a)
  then show ?case by simp
qed

lemma empty_message_mentions_empty:
  "contains ''empty'' (''PDF created but empty '' @ attempt_no k)"
  using contains_append [of "''empty''" "''PDF created but ''" "'' '' @ attempt_no k"]
  by simp

lemma compile_step_empty:
  assumes "run_tectonic W k = Exited 0 stderr (PdfEmpty u)"
  shows "fst (compile_step W pdf k final) = None
       \<and> ''PDF created but empty '' @ attempt_no k \<in> set (fst (snd (compile_step W pdf k final)))
       \<and> snd (snd (snd (compile_step W pdf k final))) = 1"
  using assms by (cases u) (simp_all add: compile_step_def)

lemma attempts_all_empty:
  assumes "\<forall>k. \<exists>stderr u. run_tectonic W k = Exited 0 stderr (PdfEmpty u)"
  shows "fst (attempts (compile_step W pdf) n k) = None
       \<and> snd (snd (snd (attempts (compile_step W pdf) n k))) = n
       \<and> (0 < n \<longrightarrow> ''PDF created but empty '' @ attempt_no k
                         \<in> set (fst (snd (attempts (compile_step W pdf) n k))))"
proof (induction n arbitrary: k)
  case 0
  show ?case by simp
next
  case (Suc n)
  obtain stderr u where "run_tectonic W k = Exited 0 stderr (PdfEmpty u)"
    using assms by blast
  from compile_step_empty [OF this, of pdf "n = 0"]
  obtain es sl where step: "compile_step W pdf k (n = 0) = (None, es, (sl, 1))"
    and mem: "''PDF created but empty '' @ attempt_no k \<in> set es"
    by (cases "compile_step W pdf k (n = 0)") auto
  obtain res es' f' where rest: "attempts (compile_step W pdf) n (Suc k) = (res, es', f')"
    by (cases "attempts (compile_step W pdf) n (Suc k)") auto
  from Suc.IH [of "Suc k"] rest have "res = None" and "snd f' = n" by auto
  with step rest mem show ?case
    by (simp add: fx_add_def)
qed

lemma write_step_no_runs: "snd (snd (snd (write_step R W code k final))) = 0"
  by (simp add: write_step_def Let_def split: write_outcome.splits)

lemma attempts_write_no_runs:
  "snd (snd (snd (attempts (write_step R W code) n k))) = 0"
proof (induction n arbitrary: k)
  case 0
  show ?case by simp
next
  case (Suc n)
  obtain r es f where step: "write_step R W code k (n = 0) = (r, es, f)"
    by (cases "write_step R W code k (n = 0)") auto
  then have "snd f = 0"
    using write_step_no_runs [of R W code k "n = 0"] by simp
  with step Suc.IH [of "Suc k"] show ?case
    by (cases r) (auto simp: fx_add_def split: prod.splits)
qed

lemma attempts_zero: "fst (attempts step 0 k) = None"
  by simp

text \<open>
  C7: when every run of the external compiler exits with code zero and leaves an
  empty PDF (and stage 2 has written its scratch file, so that stage 3 is reached),
  the compiler is run exactly \<open>max_retries\<close> times, the render fails, and its errors
  include a message that mentions \<open>empty\<close>.
\<close>

theorem empty_artifact_exhausts_retries:
  assumes "\<forall>k. \<exists>stderr u. run_tectonic W k = Exited 0 stderr (PdfEmpty u)"
    and "fst (write_standalone_tex_file R W (fst (generate_clean_tikz_code W code))) \<noteq> None"
  shows "snd (render R W code out) = nat (max_retries R)
       \<and> 0 < max_retries R
       \<and> \<not> success (fst (render R W code out))
       \<and> (\<exists>e \<in> set (errors (fst (render R W code out))). contains ''empty'' e)"
proof -
  let ?clean = "fst (generate_clean_tikz_code W code)"
  let ?n = "nat (max_retries R)"
  obtain tex es2 f2 where w: "write_standalone_tex_file R W ?clean = (Some tex, es2, f2)"
    using assms(2) by (cases "write_standalone_tex_file R W ?clean") auto
  have runs2: "snd f2 = 0"
    using attempts_write_no_runs [of R W ?clean ?n 0] w
    by (simp add: write_standalone_tex_file_def)
  have pos: "0 < ?n"
    using w by (cases ?n) (simp_all add: write_standalone_tex_file_def)
  obtain es3 f3 where c: "compile_with_tectonic R W tex = (None, es3, f3)"
    and runs3: "snd f3 = ?n"
    and mem: "''PDF created but empty '' @ attempt_no 0 \<in> set es3"
    using attempts_all_empty [OF assms(1), of "with_suffix_pdf tex" ?n 0] pos
    by (cases "compile_with_tectonic R W tex") (auto simp: compile_with_tectonic_def)
  define e where "e = ''PDF created but empty '' @ attempt_no 0"
  have ce: "contains ''empty'' e"
    unfolding e_def by (rule empty_message_mentions_empty)
  have me: "e \<in> set es3"
    using mem by (simp add: e_def)
  have r: "render R W code out =
             (\<lparr>success = False, output_png = out, md_tikz_code = code,
               steps_completed = [''tikz_code_generation'', ''tex_file_creation'',
                                  ''tectonic_compilation''],
               errors = es2 @ es3 @ [''Pipeline failed: Tectonic compilation failed''],
               warnings = snd (generate_clean_tikz_code W code),
               execution_time = fst (fx_add f2 f3) + busy_ms W,
               intermediate_files = [(''tex'', tex)]\<rparr>, snd (fx_add f2 f3))"
    using w c
    by (simp add: render_def render_body_def render_stage2_def render_stage3_def Let_def)
  have "snd (render R W code out) = ?n"
    using r runs2 runs3 by (simp add: fx_add_def)
  moreover have "\<not> success (fst (render R W code out))"
    using r by simp
  moreover have "e \<in> set (errors (fst (render R W code out)))"
    using r me by simp
  ultimately show ?thesis
    using ce pos by auto
qed

theorem empty_artifact_exhausts_retries_witness:
  "snd (render R3 W_empty_pdf (tikz_code q_good) ''out.png'') = 3
   \<and> \<not> success (fst (render R3 W_empty_pdf (tikz_code q_good) ''out.png''))
   \<and> (\<exists>e \<in> set (errors (fst (render R3 W_empty_pdf (tikz_code q_good) ''out.png''))).
         contains ''empty'' e)"
proof -
  have a: "\<forall>k. \<exists>stderr u. run_tectonic W_empty_pdf k = Exited 0 stderr (PdfEmpty u)"
    by (simp add: W_empty_pdf_def W_ok_def)
  have b: "fst (write_standalone_tex_file R3 W_empty_pdf
             (fst (generate_clean_tikz_code W_empty_pdf (tikz_code q_good)))) \<noteq> None"
    by (simp add: write_standalone_tex_file_def R3_def W_empty_pdf_def W_ok_def
        write_step_def numeral_3_eq_3)
  show ?thesis
    using empty_artifact_exhausts_retries [OF a b, of "''out.png''"]
    by (simp add: R3_def)
qed

lemma render_time_always_zero:
  "render_time (fst (render_single_diagram P W q pattern_idx)) = 0"
  by (simp add: render_single_diagram_def get_time_def Let_def split: prod.splits bool.splits)

lemma render_all_stages_pass:
  assumes "write_standalone_tex_file R W (fst (generate_clean_tikz_code W code)) = (Some tex, e2, f2)"
    and "compile_with_tectonic R W tex = (Some pdf, e3, f3)"
    and "convert_to_png_with_pypdfium2 R W = (True, e4, f4)"
    and "validate_final_png W = (True, e5)"
  shows "render R W code out =
           (\<lparr>success = True, output_png = out, md_tikz_code = code,
             steps_completed = [''tikz_code_generation'', ''tex_file_creation'',
                                ''tectonic_compilation'', ''png_conversion'', ''png_validation''],
             errors = e2 @ e3 @ e4 @ e5,
             warnings = snd (generate_clean_tikz_code W code),
             execution_time = fst (fx_add (fx_add f2 f3) f4) + busy_ms W,
             intermediate_files = [(''tex'', tex), (''pdf'', pdf)]\<rparr>,
            snd (fx_add (fx_add f2 f3) f4))"
  using assms
  by (simp add: render_def render_body_def render_stage2_def render_stage3_def
      render_stage4_def render_stage5_def Let_def)

lemma write_first_try:
  assumes "0 < max_retries R" and "\<And>p s. write_tex W 0 p s = WriteOk"
  shows "write_standalone_tex_file R W code = (Some (tex_path R W 0), [], (0, 0))"
proof -
  obtain n where "nat (max_retries R) = Suc n"
    using assms(1) by (cases "nat (max_retries R)") auto
  then show ?thesis
    using assms(2) by (simp add: write_standalone_tex_file_def write_step_def)
qed

lemma convert_first_try:
  assumes "0 < max_retries R" and "convert_png W 0 = Converted"
  shows "convert_to_png_with_pypdfium2 R W = (True, [], (0, 0))"
proof -
  obtain n where "nat (max_retries R) = Suc n"
    using assms(1) by (cases "nat (max_retries R)") auto
  then show ?thesis
    using assms(2) by (simp add: convert_to_png_with_pypdfium2_def convert_step_def)
qed

lemma compile_first_try:
  assumes "0 < max_retries R" and "run_tectonic W 0 = Exited 0 se PdfOk"
  shows "compile_with_tectonic R W tex = (Some (with_suffix_pdf tex), [], (0, 1))"
proof -
  obtain n where "nat (max_retries R) = Suc n"
    using assms(1) by (cases "nat (max_retries R)") auto
  then show ?thesis
    using assms(2) by (simp add: compile_with_tectonic_def compile_step_def)
qed

lemma compile_third_try:
  assumes "max_retries R = 3"
    and "run_tectonic W 0 = Exited 1 se0 c0"
    and "run_tectonic W (Suc 0) = Exited 1 se1 c1"
    and "run_tectonic W (Suc (Suc 0)) = Exited 0 se2 PdfOk"
  shows "fst (compile_with_tectonic R W tex) = Some (with_suffix_pdf tex)
       \<and> snd (snd (compile_with_tectonic R W tex)) = (600, 3)"
  using assms
  by (simp add: compile_with_tectonic_def compile_step_def numeral_3_eq_3 fx_add_def
      backoff_def case_prod_unfold)

lemma validate_png_ok:
  "validate_final_png W_ok = (True, [])"
  by (simp add: validate_final_png_def W_ok_def)


lemma validate_q_good: "validate (tikz_code q_good) = (True, None)"
  by (simp add: validate_def q_good_def q_no_text_def count_char_def strip_def lstrip_def
      rstrip_def isspace_simps forbidden_patterns_def drawing_keywords_def lower_def
      lower_char_def)

lemma render_fail_twice:
  "success (fst (render R3 W_fail_twice code out))
   \<and> execution_time (fst (render R3 W_fail_twice code out)) = 600 + busy_ms W_fail_twice
   \<and> snd (render R3 W_fail_twice code out) = 3"
proof -
  let ?W = W_fail_twice
  let ?tex = "tex_path R3 ?W 0"
  have w: "write_standalone_tex_file R3 ?W (fst (generate_clean_tikz_code ?W code))
             = (Some ?tex, [], (0, 0))"
    by (rule write_first_try) (simp_all add: R3_def W_fail_twice_def W_ok_def)
  have "fst (compile_with_tectonic R3 ?W ?tex) = Some (with_suffix_pdf ?tex)
       \<and> snd (snd (compile_with_tectonic R3 ?W ?tex)) = (600, 3)"
    by (rule compile_third_try) (simp_all add: R3_def W_fail_twice_def W_ok_def)
  then obtain e3 where c: "compile_with_tectonic R3 ?W ?tex
                             = (Some (with_suffix_pdf ?tex), e3, (600, 3))"
    by (cases "compile_with_tectonic R3 ?W ?tex") auto
  have v: "convert_to_png_with_pypdfium2 R3 ?W = (True, [], (0, 0))"
    by (rule convert_first_try) (simp_all add: R3_def W_fail_twice_def W_ok_def)
  have p: "validate_final_png ?W = (True, [])"
    by (simp add: validate_final_png_def W_fail_twice_def W_ok_def)
  show ?thesis
    using render_all_stages_pass [OF w c v p, of out] by (simp add: fx_add_def)
qed

text \<open>
  C8: with a compiler that fails twice and then succeeds, and \<open>max_retries = 3\<close>,
  the render succeeds and its dictionary holds the elapsed time under
  \<open>execution_time\<close>: the 200 ms and 400 ms of back-off and the time spent outside
  sleeping. \<open>_render_single_diagram\<close> reads the key \<open>render_time\<close>, which the
  dictionary does not have, so the diagram record handed to the orchestrator holds 0.
\<close>

theorem render_time_not_recorded:
  "success (fst (render R3 W_fail_twice (tikz_code q_good) (png_name P3 q_good 0)))
   \<and> execution_time (fst (render R3 W_fail_twice (tikz_code q_good) (png_name P3 q_good 0)))
       = 600 + busy_ms W_fail_twice
   \<and> rd_success (fst (render_single_diagram P3 W_fail_twice q_good 0))
   \<and> render_time (fst (render_single_diagram P3 W_fail_twice q_good 0)) = 0"
proof -
  have "tikz_renderer P3 = R3"
    by (simp add: P3_def)
  then show ?thesis
    using render_fail_twice [of "tikz_code q_good" "png_name P3 q_good 0"] validate_q_good
    by (simp add: render_single_diagram_def get_time_def Let_def case_prod_unfold)
qed

lemma render_ok_short:
  "errors (fst (render R3 W_ok code out)) = [] \<and> success (fst (render R3 W_ok code out))"
proof -
  let ?tex = "tex_path R3 W_ok 0"
  have w: "write_standalone_tex_file R3 W_ok (fst (generate_clean_tikz_code W_ok code))
             = (Some ?tex, [], (0, 0))"
    by (rule write_first_try) (simp_all add: R3_def W_ok_def)
  have c: "compile_with_tectonic R3 W_ok ?tex = (Some (with_suffix_pdf ?tex), [], (0, 1))"
    by (rule compile_first_try [of _ _ "[]"]) (simp_all add: R3_def W_ok_def)
  have v: "convert_to_png_with_pypdfium2 R3 W_ok = (True, [], (0, 0))"
    by (rule convert_first_try) (simp_all add: R3_def W_ok_def)
  have p: "validate_final_png W_ok = (True, [])"
    by (simp add: validate_final_png_def W_ok_def)
  show ?thesis
    using render_all_stages_pass [OF w c v p, of out] by simp
qed

text \<open>
  C2, as stated, fails for stage 1: on a source of two characters the cleaning stage
  fails, the failure is recorded among the warnings, and the render goes on and
  succeeds with an empty list of errors.
\<close>

theorem stage1_failure_not_in_errors_counterexample:
  "snd (generate_clean_tikz_code W_ok ''ab'')
     = [''TikZ code cleaning failed: TikZ code is empty or too short'']
   \<and> errors (fst (render R3 W_ok ''ab'' ''out.png'')) = []
   \<and> success (fst (render R3 W_ok ''ab'' ''out.png''))"
proof -
  have "snd (generate_clean_tikz_code W_ok ''ab'')
          = [''TikZ code cleaning failed: TikZ code is empty or too short'']"
    by (simp add: generate_clean_tikz_code_def strip_def lstrip_def rstrip_def isspace_simps)
  then show ?thesis
    using render_ok_short [of "''ab''" "''out.png''"] by simp
qed

text \<open>
  C2, amended: \<open>render\<close> always returns its record (every \<open>raise\<close> of the body is
  caught). The failures of stage 1 are appended to the warnings and do not stop the
  pipeline; the errors are those of stages 2 to 5, in order, as far as the pipeline
  got, followed by one \<open>Pipeline failed\<close> entry for the stage that stopped it; the
  success flag is set exactly when stages 2 to 5 all delivered.
\<close>

theorem render_accumulates_stage_errors:
  "(let md = fst (render R W code out);
        s1 = generate_clean_tikz_code W code;
        s2 = write_standalone_tex_file R W (fst s1);
        s4 = convert_to_png_with_pypdfium2 R W;
        s5 = validate_final_png W
    in output_png md = out \<and> md_tikz_code md = code
       \<and> warnings md = snd s1
       \<and> errors md = fst (snd s2) @
            (case fst s2 of
               None \<Rightarrow> [''Pipeline failed: Failed to create TEX file'']
             | Some tex \<Rightarrow>
                 fst (snd (compile_with_tectonic R W tex)) @
                 (if fst (compile_with_tectonic R W tex) = None
                  then [''Pipeline failed: Tectonic compilation failed'']
                  else fst (snd s4) @
                    (if \<not> fst s4 then [''Pipeline failed: PDF to PNG conversion failed'']
                     else snd s5 @
                       (if \<not> fst s5 then [''Pipeline failed: Final PNG validation failed'']
                        else []))))
       \<and> success md =
            (case fst s2 of
               None \<Rightarrow> False
             | Some tex \<Rightarrow> fst (compile_with_tectonic R W tex) \<noteq> None \<and> fst s4 \<and> fst s5))"
  by (simp add: render_def render_body_def render_stage2_def render_stage3_def
      render_stage4_def render_stage5_def Let_def case_prod_unfold split: option.splits)

theorem render_accumulates_stage_errors_witness:
  "warnings (fst (render R3 W_empty_pdf ''ab'' ''out.png''))
     = [''TikZ code cleaning failed: TikZ code is empty or too short'']
   \<and> \<not> success (fst (render R3 W_empty_pdf ''ab'' ''out.png''))
   \<and> last (errors (fst (render R3 W_empty_pdf ''ab'' ''out.png'')))
       = ''Pipeline failed: Tectonic compilation failed''"
proof -
  let ?tex = "tex_path R3 W_empty_pdf 0"
  have s1: "generate_clean_tikz_code W_empty_pdf ''ab''
              = (''ab'', [''TikZ code cleaning failed: TikZ code is empty or too short''])"
    by (simp add: generate_clean_tikz_code_def strip_def lstrip_def rstrip_def isspace_simps)
  have w: "write_standalone_tex_file R3 W_empty_pdf ''ab'' = (Some ?tex, [], (0, 0))"
    by (rule write_first_try) (simp_all add: R3_def W_empty_pdf_def W_ok_def)
  have "\<forall>k. \<exists>stderr u. run_tectonic W_empty_pdf k = Exited 0 stderr (PdfEmpty u)"
    by (simp add: W_empty_pdf_def W_ok_def)
  from attempts_all_empty [OF this, of "with_suffix_pdf ?tex" "nat (max_retries R3)" 0]
  have c: "fst (compile_with_tectonic R3 W_empty_pdf ?tex) = None"
    by (simp add: compile_with_tectonic_def)
  show ?thesis
    using render_accumulates_stage_errors [of R3 W_empty_pdf "''ab''" "''out.png''"] s1 w c
    by (simp add: Let_def)
qed


end
